theory Spec2Isabelle
  imports Main "HOL-Library.Sublist"
begin

section \<open>Paths\<close>

text \<open>
  The configuration script \<^verbatim>\<open>forge.config.js\<close> handles paths only through
  \<^verbatim>\<open>path.join\<close> and through the \<^verbatim>\<open>fs\<close> functions, which resolve a relative
  argument against the working directory. A path is kept here as the list of its
  segments below the root; the three directories the script starts from
  (\<^verbatim>\<open>__dirname\<close>, \<^verbatim>\<open>process.cwd()\<close> and the \<^verbatim>\<open>buildPath\<close> argument) are such lists,
  and the string literals of the source are split at \<^verbatim>\<open>/\<close> as they stand.
\<close>

type_synonym path = "string list"

fun split_path :: "string \<Rightarrow> string list" where
  "split_path [] = [[]]"
| "split_path (c # cs) =
     (if c = CHR ''/'' then [] # split_path cs
      else (case split_path cs of [] \<Rightarrow> [[c]] | s # ss \<Rightarrow> (c # s) # ss))"

text \<open>
  Normalisation as \<^verbatim>\<open>path.join\<close> performs it on an absolute path: empty and \<^verbatim>\<open>.\<close>
  segments are dropped, \<^verbatim>\<open>..\<close> removes the segment before it, and is itself dropped
  at the root.
\<close>

fun normalize_segs :: "path \<Rightarrow> string list \<Rightarrow> path" where
  "normalize_segs acc [] = acc"
| "normalize_segs acc (s # ss) =
     (if s = [] \<or> s = ''.'' then normalize_segs acc ss
      else if s = ''..'' then normalize_segs (butlast acc) ss
      else normalize_segs (acc @ [s]) ss)"

definition path_join :: "path \<Rightarrow> string \<Rightarrow> path" where
  "path_join base rel = normalize_segs [] (base @ split_path rel)"

section \<open>Strings\<close>

text \<open>\<^verbatim>\<open>Array.prototype.join\<close> on an array of strings.\<close>

fun join_str :: "string \<Rightarrow> string list \<Rightarrow> string" where
  "join_str sep [] = []"
| "join_str sep [x] = x"
| "join_str sep (x # y # ys) = x @ sep @ join_str sep (y # ys)"

text \<open>\<^verbatim>\<open>String.prototype.includes\<close>: does the pattern occur at some position?\<close>

fun starts_with :: "string \<Rightarrow> string \<Rightarrow> bool" where
  "starts_with s [] = True"
| "starts_with [] (p # ps) = False"
| "starts_with (c # cs) (p # ps) = (c = p \<and> starts_with cs ps)"

fun includes_str :: "string \<Rightarrow> string \<Rightarrow> bool" where
  "includes_str [] pat = starts_with [] pat"
| "includes_str (c # cs) pat = (starts_with (c # cs) pat \<or> includes_str cs pat)"

section \<open>The file system and the effects of a hook\<close>

text \<open>
  The file system is a partial map from paths to file contents. Reading or copying an
  absent file raises the missing-file error \<open>ENOENT\<close>; a write creates or replaces the
  entry of its path (directories are taken to exist and to be writable: the hooks run
  in the project tree and in the staging directory the packaging framework has
  populated). Every effect a hook performs is appended to a trace, in the order
  in which it happens, so that the order of effects can be stated.
\<close>

datatype error = ENOENT path | Failed string

datatype event =
    ReadFile path
  | Wrote path string
  | Copied path path
  | Compiled path
  | Imported path
  | Invoked string string

record world =
  files :: "path \<rightharpoonup> string"
  trace :: "event list"

type_synonym 'a io = "world \<Rightarrow> (error + 'a) \<times> world"

text \<open>Sequencing: an exception thrown by the first step ends the hook there.\<close>

definition io_bind :: "'a io \<Rightarrow> ('a \<Rightarrow> 'b io) \<Rightarrow> 'b io" where
  "io_bind m f w = (case m w of (Inl e, w') \<Rightarrow> (Inl e, w') | (Inr x, w') \<Rightarrow> f x w')"

definition log_event :: "event \<Rightarrow> world \<Rightarrow> world" where
  "log_event e w = w\<lparr>trace := trace w @ [e]\<rparr>"

text \<open>\<^verbatim>\<open>fs.readFileSync(p).toString()\<close>\<close>

definition readFileSync :: "path \<Rightarrow> string io" where
  "readFileSync p w =
     (case files w p of
        None \<Rightarrow> (Inl (ENOENT p), w)
      | Some c \<Rightarrow> (Inr c, log_event (ReadFile p) w))"

text \<open>\<^verbatim>\<open>fs.writeFileSync(p, c)\<close>\<close>

definition writeFileSync :: "path \<Rightarrow> string \<Rightarrow> unit io" where
  "writeFileSync p c w = (Inr (), log_event (Wrote p c) (w\<lparr>files := (files w)(p \<mapsto> c)\<rparr>))"

text \<open>\<^verbatim>\<open>fs.copyFileSync(src, dest)\<close>\<close>

definition copyFileSync :: "path \<Rightarrow> path \<Rightarrow> unit io" where
  "copyFileSync src dest w =
     (case files w src of
        None \<Rightarrow> (Inl (ENOENT src), w)
      | Some c \<Rightarrow> (Inr (), log_event (Copied src dest) (w\<lparr>files := (files w)(dest \<mapsto> c)\<rparr>)))"

section \<open>External collaborators\<close>

text \<open>
  The schema compiler (\<^verbatim>\<open>compileFromFile\<close> of json-schema-to-typescript), the build
  script \<^verbatim>\<open>scripts/build.mjs\<close> and the helper \<^verbatim>\<open>runPwshScript\<close> of
  \<^verbatim>\<open>src/background/utils\<close> are not part of the configuration script. They are
  parameters of the model: each is a function of its arguments and of the file system,
  which either fails or succeeds, and the latter two may leave the file system changed
  in either case.
\<close>

record externals =
  compileFromFile :: "path \<Rightarrow> (path \<rightharpoonup> string) \<Rightarrow> error + string"
  importBuild :: "path \<Rightarrow> (path \<rightharpoonup> string) \<Rightarrow> (error + unit) \<times> (path \<rightharpoonup> string)"
  runPwshScript :: "string \<Rightarrow> string \<Rightarrow> (path \<rightharpoonup> string) \<Rightarrow> (error + unit) \<times> (path \<rightharpoonup> string)"

text \<open>\<^verbatim>\<open>await compileFromFile(p)\<close>: the compilation is logged when it has completed.\<close>

definition await_compileFromFile :: "externals \<Rightarrow> path \<Rightarrow> string io" where
  "await_compileFromFile ext p w =
     (case compileFromFile ext p (files w) of
        Inl e \<Rightarrow> (Inl e, w)
      | Inr ts \<Rightarrow> (Inr ts, log_event (Compiled p) w))"

text \<open>\<^verbatim>\<open>await import(p)\<close>: the import is logged when it begins.\<close>

definition await_import :: "externals \<Rightarrow> path \<Rightarrow> unit io" where
  "await_import ext p w =
     (case importBuild ext p (files w) of
        (r, fs) \<Rightarrow> (r, (log_event (Imported p) w)\<lparr>files := fs\<rparr>))"

text \<open>\<^verbatim>\<open>await runPwshScript(script, args)\<close>: the invocation is logged when it begins.\<close>

definition await_runPwshScript :: "externals \<Rightarrow> string \<Rightarrow> string \<Rightarrow> unit io" where
  "await_runPwshScript ext script args w =
     (case runPwshScript ext script args (files w) of
        (r, fs) \<Rightarrow> (r, (log_event (Invoked script args) w)\<lparr>files := fs\<rparr>))"

section \<open>The process environment\<close>

text \<open>
  What the script reads from its surroundings: \<^verbatim>\<open>__dirname\<close>, \<^verbatim>\<open>process.cwd()\<close>,
  \<^verbatim>\<open>process.env.GITHUB_TOKEN\<close> (which may be undefined), the \<^verbatim>\<open>version\<close> field of
  \<^verbatim>\<open>package.json\<close>, and the text that the host platform's \<^verbatim>\<open>path.join\<close> returns
  for a path (separator and root prefix are the platform's).
\<close>

record env =
  dirname :: path
  cwd :: path
  GITHUB_TOKEN :: "string option"
  version :: string
  path_text :: "path \<Rightarrow> string"

section \<open>The hooks\<close>

text \<open>
  Each hook takes the arguments the packaging framework passes, in the order of the
  source; \<^verbatim>\<open>generateAssets\<close> and \<^verbatim>\<open>prePackage\<close> use none of theirs, and
  \<^verbatim>\<open>packageAfterCopy\<close> uses \<^verbatim>\<open>buildPath\<close> only.
\<close>

definition generateAssets :: "externals \<Rightarrow> env \<Rightarrow> 'cfg \<Rightarrow> string \<Rightarrow> string \<Rightarrow> unit io" where
  "generateAssets ext e forgeConfig platform vers =
     io_bind (await_compileFromFile ext (path_join (cwd e) ''./komorebi/schema.json'')) (\<lambda>ts1.
     io_bind (writeFileSync (path_join (cwd e) ''./src/JsonSettings.interface.ts'') ts1) (\<lambda>_.
     io_bind (await_compileFromFile ext (path_join (cwd e) ''./komorebi/schema.asc.json'')) (\<lambda>ts2.
     io_bind (writeFileSync (path_join (cwd e) ''./src/YamlSettings.interface.ts'') ts2) (\<lambda>_.
     await_import ext (path_join (dirname e) ''./scripts/build.mjs'')))))"

definition prePackage :: "externals \<Rightarrow> env \<Rightarrow> 'cfg \<Rightarrow> string \<Rightarrow> string \<Rightarrow> unit io" where
  "prePackage ext e forgeConfig platform vers =
     await_runPwshScript ext ''prePackage.ps1''
       (''-Folder '' @ path_text e (path_join (cwd e) ''out/Komorebi UI-win32-x64''))"

definition packageAfterCopy ::
    "env \<Rightarrow> 'cfg \<Rightarrow> path \<Rightarrow> string \<Rightarrow> string \<Rightarrow> string \<Rightarrow> unit io" where
  "packageAfterCopy e forgeConfig buildPath electronVersion platform arch =
     io_bind (readFileSync (path_join (dirname e) ''LICENSE'')) (\<lambda>ownLicense.
     io_bind (readFileSync (path_join (dirname e) ''komorebi/LICENSE'')) (\<lambda>komorebiLicense.
     io_bind (readFileSync (path_join buildPath ''../../LICENSE'')) (\<lambda>electronLicense.
     io_bind (writeFileSync (path_join buildPath ''../../LICENSE'')
                (join_str ''\<newline>\<newline>- - -\<newline>\<newline>''
                   [ownLicense, komorebiLicense, electronLicense])) (\<lambda>_.
     io_bind (copyFileSync
                (path_join (dirname e) ''komorebi/target/x86_64-pc-windows-msvc/release/komorebi.exe'')
                (path_join buildPath ''komorebi.exe'')) (\<lambda>_.
     io_bind (copyFileSync
                (path_join (dirname e) ''komorebi/target/x86_64-pc-windows-msvc/release/komorebic.exe'')
                (path_join buildPath ''komorebic.exe'')) (\<lambda>_.
     io_bind (copyFileSync
                (path_join (dirname e) ''komorebi/komorebi.sample.ahk'')
                (path_join buildPath ''komorebi.sample.ahk'')) (\<lambda>_.
     copyFileSync
       (path_join (dirname e) ''komorebi/komorebic.lib.ahk'')
       (path_join buildPath ''komorebic.lib.ahk''))))))))"

section \<open>The declarative configuration\<close>

text \<open>
  The object the script exports, without its hooks (modelled above) and its empty
  \<^verbatim>\<open>rebuildConfig\<close>. The two makers are the constructors of a datatype, the squirrel
  maker carrying its \<^verbatim>\<open>iconUrl\<close>, \<^verbatim>\<open>setupIcon\<close> and \<^verbatim>\<open>skipUpdateIcon\<close>; the
  single publisher is a record whose \<^verbatim>\<open>repository\<close> object is flattened into two
  fields.
\<close>

record packager_config =
  productName :: string
  executableName :: string
  icon :: path
  extraResource :: "string list"
  asar :: bool
  ignore :: "string list"

datatype maker = MakerSquirrel string path bool | MakerZip

record publisher_config =
  repository_owner :: string
  repository_name :: string
  prerelease :: bool
  generateReleaseNotes :: bool
  authToken :: "string option"

record forge_config =
  packagerConfig :: packager_config
  makers :: "maker list"
  plugins :: "string list"
  publisher :: publisher_config

definition config :: "env \<Rightarrow> forge_config" where
  "config e =
     \<lparr> packagerConfig =
         \<lparr> productName = ''Komorebi UI'',
           executableName = ''komorebi-ui'',
           icon = path_join (cwd e) ''static/icons/icon'',
           extraResource = [''static/apps_templates'', ''static/redis''],
           asar = True,
           ignore = [''komorebi'', ''scripts'', ''.vscode'', ''.gitignore'', ''.gitmodules'',
                     ''eslint.config.js'', ''tsconfig.json'', ''src''] \<rparr>,
       makers =
         [MakerSquirrel
            ''https://raw.githubusercontent.com/eythaann/Komorebi-UI/master/static/icons/icon.ico''
            (path_join (cwd e) ''static/icons/icon.ico'')
            False,
          MakerZip],
       plugins = [''@electron-forge/plugin-auto-unpack-natives''],
       publisher =
         \<lparr> repository_owner = ''eythaann'',
           repository_name = ''komorebi-ui'',
           prerelease = includes_str (version e) ''beta'',
           generateReleaseNotes = True,
           authToken = GITHUB_TOKEN e \<rparr> \<rparr>"

section \<open>Vocabulary of the properties\<close>

text \<open>The events a step appends to the trace of the world it starts from.\<close>

definition effects :: "'a io \<Rightarrow> world \<Rightarrow> event list" where
  "effects m w = drop (length (trace w)) (trace (snd (m w)))"

text \<open>The events that put content into a file: a write or a copy.\<close>

fun is_output :: "event \<Rightarrow> bool" where
  "is_output (Wrote p c) = True"
| "is_output (Copied s d) = True"
| "is_output ev = False"

text \<open>The file an event puts content into, and the events of a trace that go to one file.\<close>

fun output_path :: "event \<Rightarrow> path option" where
  "output_path (Wrote p c) = Some p"
| "output_path (Copied s d) = Some d"
| "output_path ev = None"

fun outputs_to :: "path \<Rightarrow> event list \<Rightarrow> event list" where
  "outputs_to p [] = []"
| "outputs_to p (ev # evs) =
     (if output_path ev = Some p then ev # outputs_to p evs else outputs_to p evs)"

text \<open>
  The four fixed artifacts of \<^verbatim>\<open>packageAfterCopy\<close>: the source of each below
  \<^verbatim>\<open>__dirname\<close> and its destination below \<^verbatim>\<open>buildPath\<close>, in the order of the
  four \<^verbatim>\<open>copyFileSync\<close> calls.
\<close>

definition artifacts :: "(string \<times> string) list" where
  "artifacts =
     [(''komorebi/target/x86_64-pc-windows-msvc/release/komorebi.exe'', ''komorebi.exe''),
      (''komorebi/target/x86_64-pc-windows-msvc/release/komorebic.exe'', ''komorebic.exe''),
      (''komorebi/komorebi.sample.ahk'', ''komorebi.sample.ahk''),
      (''komorebi/komorebic.lib.ahk'', ''komorebic.lib.ahk'')]"

text \<open>The relative path \<open>rel\<close> names a file: its last segment is the proper name \<open>n\<close>.\<close>

definition file_name :: "string \<Rightarrow> string \<Rightarrow> bool" where
  "file_name rel n \<longleftrightarrow> last (split_path rel) = n \<and> n \<noteq> [] \<and> n \<noteq> ''.'' \<and> n \<noteq> ''..''"

text \<open>The content of a file, empty for an absent one.\<close>

definition content :: "world \<Rightarrow> path \<Rightarrow> string" where
  "content w p = (case files w p of None \<Rightarrow> [] | Some c \<Rightarrow> c)"

text \<open>
  The effects of a complete run of \<^verbatim>\<open>packageAfterCopy\<close> from world \<open>w\<close>, in the order
  the specification gives them.
\<close>

definition packageAfterCopy_plan :: "env \<Rightarrow> path \<Rightarrow> world \<Rightarrow> event list" where
  "packageAfterCopy_plan e buildPath w =
     [ReadFile (path_join (dirname e) ''LICENSE''),
      ReadFile (path_join (dirname e) ''komorebi/LICENSE''),
      ReadFile (path_join buildPath ''../../LICENSE''),
      Wrote (path_join buildPath ''../../LICENSE'')
        (content w (path_join (dirname e) ''LICENSE'')
           @ ''\<newline>\<newline>- - -\<newline>\<newline>''
           @ content w (path_join (dirname e) ''komorebi/LICENSE'')
           @ ''\<newline>\<newline>- - -\<newline>\<newline>''
           @ content w (path_join buildPath ''../../LICENSE''))]
     @ map (\<lambda>(src, dst). Copied (path_join (dirname e) src) (path_join buildPath dst)) artifacts"

text \<open>
  The file system with the two type-definition files of \<^verbatim>\<open>generateAssets\<close> in it,
  holding the texts \<open>ts1\<close> and \<open>ts2\<close>.
\<close>

definition with_generated :: "env \<Rightarrow> string \<Rightarrow> string \<Rightarrow> (path \<rightharpoonup> string) \<Rightarrow> (path \<rightharpoonup> string)" where
  "with_generated e ts1 ts2 fs =
     fs(path_join (cwd e) ''./src/JsonSettings.interface.ts'' \<mapsto> ts1,
        path_join (cwd e) ''./src/YamlSettings.interface.ts'' \<mapsto> ts2)"

section \<open>A fixture tree\<close>

text \<open>
  A complete tree of the files the hooks use, below the project directory \<^verbatim>\<open>/proj\<close>,
  with the staging directory where the packaging framework puts it, and stand-ins for
  the external collaborators. The properties below are evaluated on it.
\<close>

definition fixture_buildPath :: path where
  "fixture_buildPath = [''proj'', ''out'', ''Komorebi UI-win32-x64'', ''resources'', ''app'']"

definition fixture_files :: "(path \<times> string) list" where
  "fixture_files =
     [([''proj'', ''LICENSE''], ''MIT''),
      ([''proj'', ''komorebi'', ''LICENSE''], ''Komorebi License''),
      ([''proj'', ''out'', ''Komorebi UI-win32-x64'', ''LICENSE''], ''Electron''),
      ([''proj'', ''komorebi'', ''target'', ''x86_64-pc-windows-msvc'', ''release'', ''komorebi.exe''], ''EXE1''),
      ([''proj'', ''komorebi'', ''target'', ''x86_64-pc-windows-msvc'', ''release'', ''komorebic.exe''], ''EXE2''),
      ([''proj'', ''komorebi'', ''komorebi.sample.ahk''], ''AHK1''),
      ([''proj'', ''komorebi'', ''komorebic.lib.ahk''], ''AHK2''),
      ([''proj'', ''komorebi'', ''schema.json''], ''{}''),
      ([''proj'', ''komorebi'', ''schema.asc.json''], ''[]'')]"

definition fixture_world :: world where
  "fixture_world = \<lparr> files = map_of fixture_files, trace = [] \<rparr>"

definition remove_file :: "path \<Rightarrow> world \<Rightarrow> world" where
  "remove_file p w = w\<lparr>files := (files w)(p := None)\<rparr>"

fun posix_text :: "path \<Rightarrow> string" where
  "posix_text [] = []"
| "posix_text (s # ss) = ''/'' @ s @ posix_text ss"

definition fixture_env :: env where
  "fixture_env =
     \<lparr> dirname = [''proj''], cwd = [''proj''], GITHUB_TOKEN = Some ''ghp_secret'',
       version = ''2.0.0-beta'', path_text = posix_text \<rparr>"

definition stub_compile :: "path \<Rightarrow> (path \<rightharpoonup> string) \<Rightarrow> error + string" where
  "stub_compile p fs =
     (case fs p of None \<Rightarrow> Inl (ENOENT p) | Some schema \<Rightarrow> Inr (''export type T = '' @ schema))"

definition stub_build :: "path \<Rightarrow> (path \<rightharpoonup> string) \<Rightarrow> (error + unit) \<times> (path \<rightharpoonup> string)" where
  "stub_build p fs = (Inr (), fs)"

definition stub_script ::
    "string \<Rightarrow> string \<Rightarrow> (path \<rightharpoonup> string) \<Rightarrow> (error + unit) \<times> (path \<rightharpoonup> string)" where
  "stub_script script args fs = (Inr (), fs)"

definition failing_script ::
    "string \<Rightarrow> string \<Rightarrow> (path \<rightharpoonup> string) \<Rightarrow> (error + unit) \<times> (path \<rightharpoonup> string)" where
  "failing_script script args fs = (Inl (Failed ''exit code 1''), fs)"

definition fixture_externals :: externals where
  "fixture_externals =
     \<lparr> compileFromFile = stub_compile, importBuild = stub_build, runPwshScript = stub_script \<rparr>"

definition failing_externals :: externals where
  "failing_externals = fixture_externals\<lparr> runPwshScript := failing_script \<rparr>"

section \<open>Facts about paths\<close>

lemma normalize_segs_last:
  "ss \<noteq> [] \<Longrightarrow> last ss \<noteq> [] \<Longrightarrow> last ss \<noteq> ''.'' \<Longrightarrow> last ss \<noteq> ''..'' \<Longrightarrow>
   normalize_segs acc ss \<noteq> [] \<and> last (normalize_segs acc ss) = last ss"
proof (induction ss arbitrary: acc)
  case Nil
  then show ?case by simp
next
  case (Cons s ss)
  show ?case
  proof (cases "ss = []")
    case True
    with Cons.prems show ?thesis by simp
  next
    case False
    with Cons.prems have "last ss \<noteq> []" "last ss \<noteq> ''.''" "last ss \<noteq> ''..''"
      by simp_all
    from Cons.IH [OF False this] False show ?thesis by simp
  qed
qed

lemma split_path_nonempty: "split_path s \<noteq> []"
  by (cases s) (auto split: list.splits)

text \<open>Joining a relative path that names a file gives a path with that file name.\<close>

lemma path_join_last:
  assumes "file_name rel n"
  shows "path_join base rel \<noteq> [] \<and> last (path_join base rel) = n"
  using assms normalize_segs_last [of "base @ split_path rel" "[]"] split_path_nonempty [of rel]
  unfolding path_join_def file_name_def by simp

lemma path_join_neq:
  assumes "file_name r1 n1" and "file_name r2 n2" and "n1 \<noteq> n2"
  shows "path_join b1 r1 \<noteq> path_join b2 r2"
  using path_join_last [OF assms(1), of b1] path_join_last [OF assms(2), of b2] assms(3)
  by metis

lemma file_names:
  "file_name ''LICENSE'' ''LICENSE''"
  "file_name ''komorebi/LICENSE'' ''LICENSE''"
  "file_name ''../../LICENSE'' ''LICENSE''"
  "file_name ''komorebi/target/x86_64-pc-windows-msvc/release/komorebi.exe'' ''komorebi.exe''"
  "file_name ''komorebi/target/x86_64-pc-windows-msvc/release/komorebic.exe'' ''komorebic.exe''"
  "file_name ''komorebi/komorebi.sample.ahk'' ''komorebi.sample.ahk''"
  "file_name ''komorebi/komorebic.lib.ahk'' ''komorebic.lib.ahk''"
  "file_name ''komorebi.exe'' ''komorebi.exe''"
  "file_name ''komorebic.exe'' ''komorebic.exe''"
  "file_name ''komorebi.sample.ahk'' ''komorebi.sample.ahk''"
  "file_name ''komorebic.lib.ahk'' ''komorebic.lib.ahk''"
  "file_name ''./komorebi/schema.json'' ''schema.json''"
  "file_name ''./komorebi/schema.asc.json'' ''schema.asc.json''"
  "file_name ''./src/JsonSettings.interface.ts'' ''JsonSettings.interface.ts''"
  "file_name ''./src/YamlSettings.interface.ts'' ''YamlSettings.interface.ts''"
  by (simp_all add: file_name_def)

text \<open>
  The paths \<^verbatim>\<open>packageAfterCopy\<close> writes to differ from one another and from the
  artifact sources it reads afterwards, whatever \<^verbatim>\<open>__dirname\<close> and \<^verbatim>\<open>buildPath\<close> are:
  their file names differ.
\<close>

lemma distinct_paths:
  "path_join a ''komorebi/target/x86_64-pc-windows-msvc/release/komorebi.exe'' \<noteq> path_join b ''../../LICENSE''"
  "path_join a ''komorebi/target/x86_64-pc-windows-msvc/release/komorebic.exe'' \<noteq> path_join b ''../../LICENSE''"
  "path_join a ''komorebi/komorebi.sample.ahk'' \<noteq> path_join b ''../../LICENSE''"
  "path_join a ''komorebi/komorebic.lib.ahk'' \<noteq> path_join b ''../../LICENSE''"
  "path_join a ''komorebi/target/x86_64-pc-windows-msvc/release/komorebic.exe'' \<noteq> path_join b ''komorebi.exe''"
  "path_join a ''komorebi/komorebi.sample.ahk'' \<noteq> path_join b ''komorebi.exe''"
  "path_join a ''komorebi/komorebic.lib.ahk'' \<noteq> path_join b ''komorebi.exe''"
  "path_join a ''komorebi/komorebi.sample.ahk'' \<noteq> path_join b ''komorebic.exe''"
  "path_join a ''komorebi/komorebic.lib.ahk'' \<noteq> path_join b ''komorebic.exe''"
  "path_join a ''komorebi/komorebic.lib.ahk'' \<noteq> path_join b ''komorebi.sample.ahk''"
  "path_join a ''../../LICENSE'' \<noteq> path_join b ''komorebi.exe''"
  "path_join a ''../../LICENSE'' \<noteq> path_join b ''komorebic.exe''"
  "path_join a ''../../LICENSE'' \<noteq> path_join b ''komorebi.sample.ahk''"
  "path_join a ''../../LICENSE'' \<noteq> path_join b ''komorebic.lib.ahk''"
  "path_join a ''komorebi.exe'' \<noteq> path_join b ''komorebic.exe''"
  "path_join a ''komorebi.exe'' \<noteq> path_join b ''komorebi.sample.ahk''"
  "path_join a ''komorebi.exe'' \<noteq> path_join b ''komorebic.lib.ahk''"
  "path_join a ''komorebic.exe'' \<noteq> path_join b ''komorebi.sample.ahk''"
  "path_join a ''komorebic.exe'' \<noteq> path_join b ''komorebic.lib.ahk''"
  "path_join a ''komorebi.sample.ahk'' \<noteq> path_join b ''komorebic.lib.ahk''"
  "path_join a ''./src/JsonSettings.interface.ts'' \<noteq> path_join b ''./src/YamlSettings.interface.ts''"
  by (rule path_join_neq, rule file_names, rule file_names, simp)+

lemmas distinct_paths_sym = distinct_paths distinct_paths [symmetric]

section \<open>Running a hook step by step\<close>

lemma read_bind:
  "io_bind (readFileSync p) f w =
     (case files w p of
        None \<Rightarrow> (Inl (ENOENT p), w)
      | Some c \<Rightarrow> f c (log_event (ReadFile p) w))"
  by (simp add: io_bind_def readFileSync_def split: option.splits)

lemma write_bind:
  "io_bind (writeFileSync p c) f w =
     f () (log_event (Wrote p c) (w\<lparr>files := (files w)(p \<mapsto> c)\<rparr>))"
  by (simp add: io_bind_def writeFileSync_def)

lemma copy_bind:
  "io_bind (copyFileSync s d) f w =
     (case files w s of
        None \<Rightarrow> (Inl (ENOENT s), w)
      | Some c \<Rightarrow> f () (log_event (Copied s d) (w\<lparr>files := (files w)(d \<mapsto> c)\<rparr>)))"
  by (simp add: io_bind_def copyFileSync_def split: option.splits)

lemma compile_bind:
  "io_bind (await_compileFromFile ext p) f w =
     (case compileFromFile ext p (files w) of
        Inl e \<Rightarrow> (Inl e, w)
      | Inr ts \<Rightarrow> f ts (log_event (Compiled p) w))"
  by (simp add: io_bind_def await_compileFromFile_def split: sum.splits)

lemmas packageAfterCopy_run =
  packageAfterCopy_def read_bind write_bind copy_bind copyFileSync_def log_event_def

lemmas generateAssets_run =
  generateAssets_def compile_bind write_bind await_import_def log_event_def

lemma fixture_paths:
  "path_join (dirname fixture_env) ''LICENSE'' = [''proj'', ''LICENSE'']"
  "path_join (dirname fixture_env) ''komorebi/LICENSE'' = [''proj'', ''komorebi'', ''LICENSE'']"
  "path_join fixture_buildPath ''../../LICENSE''
     = [''proj'', ''out'', ''Komorebi UI-win32-x64'', ''LICENSE'']"
  "path_join (dirname fixture_env) ''komorebi/komorebi.sample.ahk''
     = [''proj'', ''komorebi'', ''komorebi.sample.ahk'']"
  "path_join (cwd fixture_env) ''./komorebi/schema.json'' = [''proj'', ''komorebi'', ''schema.json'']"
  "path_join (cwd fixture_env) ''./komorebi/schema.asc.json''
     = [''proj'', ''komorebi'', ''schema.asc.json'']"
  "path_join (cwd fixture_env) ''./src/JsonSettings.interface.ts''
     = [''proj'', ''src'', ''JsonSettings.interface.ts'']"
  "path_join (cwd fixture_env) ''./src/YamlSettings.interface.ts''
     = [''proj'', ''src'', ''YamlSettings.interface.ts'']"
  "path_join (cwd fixture_env) ''out/Komorebi UI-win32-x64''
     = [''proj'', ''out'', ''Komorebi UI-win32-x64'']"
  by (simp_all add: path_join_def fixture_env_def fixture_buildPath_def)

lemma fixture_path_text: "path_text fixture_env = posix_text"
  by (simp add: fixture_env_def)

section \<open>The merged license file\<close>

text \<open>
  Claim C1. Whatever the three license texts \<open>own\<close>, \<open>wrapped\<close> and \<open>framework\<close> are
  (empty ones included), \<^verbatim>\<open>packageAfterCopy\<close> puts into the framework's license file,
  two levels above the staging directory, exactly
  \<open>own + "\n\n- - -\n\n" + wrapped + "\n\n- - -\n\n" + framework\<close>: this write is the only
  output of the run that goes to that file, and the file holds that text when the hook
  ends, whether or not the copies after the write succeed.
\<close>

theorem packageAfterCopy_merged_license:
  assumes "files w (path_join (dirname e) ''LICENSE'') = Some own"
    and "files w (path_join (dirname e) ''komorebi/LICENSE'') = Some wrapped"
    and "files w (path_join buildPath ''../../LICENSE'') = Some framework"
  shows "outputs_to (path_join buildPath ''../../LICENSE'')
           (effects (packageAfterCopy e fc buildPath ev pl ar) w)
         = [Wrote (path_join buildPath ''../../LICENSE'')
              (own @ ''\<newline>\<newline>- - -\<newline>\<newline>'' @ wrapped
                 @ ''\<newline>\<newline>- - -\<newline>\<newline>'' @ framework)]
       \<and> files (snd (packageAfterCopy e fc buildPath ev pl ar w))
           (path_join buildPath ''../../LICENSE'')
         = Some (own @ ''\<newline>\<newline>- - -\<newline>\<newline>'' @ wrapped
                   @ ''\<newline>\<newline>- - -\<newline>\<newline>'' @ framework)"
proof -
  from assms have "case packageAfterCopy e fc buildPath ev pl ar w of (r, w') \<Rightarrow>
      outputs_to (path_join buildPath ''../../LICENSE'') (drop (length (trace w)) (trace w'))
        = [Wrote (path_join buildPath ''../../LICENSE'')
             (own @ ''\<newline>\<newline>- - -\<newline>\<newline>'' @ wrapped
                @ ''\<newline>\<newline>- - -\<newline>\<newline>'' @ framework)]
      \<and> files w' (path_join buildPath ''../../LICENSE'')
        = Some (own @ ''\<newline>\<newline>- - -\<newline>\<newline>'' @ wrapped
                  @ ''\<newline>\<newline>- - -\<newline>\<newline>'' @ framework)"
    by (simp add: packageAfterCopy_run distinct_paths_sym split: option.split)
  then show ?thesis
    by (simp add: effects_def split: prod.splits)
qed

theorem packageAfterCopy_merged_license_witness:
  "files fixture_world (path_join (dirname fixture_env) ''LICENSE'') = Some ''MIT''
   \<and> files fixture_world (path_join (dirname fixture_env) ''komorebi/LICENSE'')
       = Some ''Komorebi License''
   \<and> files fixture_world (path_join fixture_buildPath ''../../LICENSE'') = Some ''Electron''
   \<and> files (snd (packageAfterCopy fixture_env () fixture_buildPath ''30.0.0'' ''win32'' ''x64''
                   fixture_world))
       (path_join fixture_buildPath ''../../LICENSE'')
     = Some ''MIT\<newline>\<newline>- - -\<newline>\<newline>Komorebi License\<newline>\<newline>- - -\<newline>\<newline>Electron''"
proof -
  have h1: "files fixture_world (path_join (dirname fixture_env) ''LICENSE'') = Some ''MIT''"
    by (simp add: fixture_paths fixture_world_def fixture_files_def)
  have h2: "files fixture_world (path_join (dirname fixture_env) ''komorebi/LICENSE'')
      = Some ''Komorebi License''"
    by (simp add: fixture_paths fixture_world_def fixture_files_def)
  have h3: "files fixture_world (path_join fixture_buildPath ''../../LICENSE'') = Some ''Electron''"
    by (simp add: fixture_paths fixture_world_def fixture_files_def)
  show ?thesis
    using h1 h2 h3
      packageAfterCopy_merged_license [OF h1 h2 h3, of "()" "''30.0.0''" "''win32''" "''x64''"]
    by simp
qed

section \<open>A missing artifact\<close>

lemma missing_artifact_1:
  assumes "files w (path_join (dirname e) ''komorebi/target/x86_64-pc-windows-msvc/release/komorebi.exe'') = None"
  shows "case packageAfterCopy e fc buildPath ev pl ar w of (r, w') \<Rightarrow>
      (\<exists>p. r = Inl (ENOENT p) \<and> files w p = None)
      \<and> outputs_to (path_join buildPath ''komorebi.exe'') (drop (length (trace w)) (trace w')) = []
      \<and> files w' (path_join buildPath ''komorebi.exe'') = files w (path_join buildPath ''komorebi.exe'')"
  using assms by (simp add: packageAfterCopy_run distinct_paths_sym split: option.split)

lemma missing_artifact_2:
  assumes "files w (path_join (dirname e) ''komorebi/target/x86_64-pc-windows-msvc/release/komorebic.exe'') = None"
  shows "case packageAfterCopy e fc buildPath ev pl ar w of (r, w') \<Rightarrow>
      (\<exists>p. r = Inl (ENOENT p) \<and> files w p = None)
      \<and> outputs_to (path_join buildPath ''komorebic.exe'') (drop (length (trace w)) (trace w')) = []
      \<and> files w' (path_join buildPath ''komorebic.exe'') = files w (path_join buildPath ''komorebic.exe'')"
  using assms by (simp add: packageAfterCopy_run distinct_paths_sym split: option.split)

lemma missing_artifact_3:
  assumes "files w (path_join (dirname e) ''komorebi/komorebi.sample.ahk'') = None"
  shows "case packageAfterCopy e fc buildPath ev pl ar w of (r, w') \<Rightarrow>
      (\<exists>p. r = Inl (ENOENT p) \<and> files w p = None)
      \<and> outputs_to (path_join buildPath ''komorebi.sample.ahk'') (drop (length (trace w)) (trace w')) = []
      \<and> files w' (path_join buildPath ''komorebi.sample.ahk'') = files w (path_join buildPath ''komorebi.sample.ahk'')"
  using assms by (simp add: packageAfterCopy_run distinct_paths_sym split: option.split)

lemma missing_artifact_4:
  assumes "files w (path_join (dirname e) ''komorebi/komorebic.lib.ahk'') = None"
  shows "case packageAfterCopy e fc buildPath ev pl ar w of (r, w') \<Rightarrow>
      (\<exists>p. r = Inl (ENOENT p) \<and> files w p = None)
      \<and> outputs_to (path_join buildPath ''komorebic.lib.ahk'') (drop (length (trace w)) (trace w')) = []
      \<and> files w' (path_join buildPath ''komorebic.lib.ahk'') = files w (path_join buildPath ''komorebic.lib.ahk'')"
  using assms by (simp add: packageAfterCopy_run distinct_paths_sym split: option.split)

lemma artifacts_cases:
  assumes "(src, dst) \<in> set artifacts"
  shows "(src = ''komorebi/target/x86_64-pc-windows-msvc/release/komorebi.exe'' \<and> dst = ''komorebi.exe'')
    \<or> (src = ''komorebi/target/x86_64-pc-windows-msvc/release/komorebic.exe'' \<and> dst = ''komorebic.exe'')
    \<or> (src = ''komorebi/komorebi.sample.ahk'' \<and> dst = ''komorebi.sample.ahk'')
    \<or> (src = ''komorebi/komorebic.lib.ahk'' \<and> dst = ''komorebic.lib.ahk'')"
  using assms unfolding artifacts_def by simp

text \<open>
  Claim C4. For each of the four fixed artifacts: if its source is absent when
  \<^verbatim>\<open>packageAfterCopy\<close> starts, the hook fails with a missing-file error, and the error
  names a file that was absent at the start; the run makes no output to the artifact's
  destination in the staging directory, which is as it was before the hook (absent if
  it was absent: no partial copy is created).
\<close>

theorem packageAfterCopy_missing_artifact:
  assumes "(src, dst) \<in> set artifacts"
    and "files w (path_join (dirname e) src) = None"
  shows "(\<exists>p. fst (packageAfterCopy e fc buildPath ev pl ar w) = Inl (ENOENT p) \<and> files w p = None)
       \<and> outputs_to (path_join buildPath dst)
           (effects (packageAfterCopy e fc buildPath ev pl ar) w) = []
       \<and> files (snd (packageAfterCopy e fc buildPath ev pl ar w)) (path_join buildPath dst)
           = files w (path_join buildPath dst)"
proof -
  have "case packageAfterCopy e fc buildPath ev pl ar w of (r, w') \<Rightarrow>
      (\<exists>p. r = Inl (ENOENT p) \<and> files w p = None)
      \<and> outputs_to (path_join buildPath dst) (drop (length (trace w)) (trace w')) = []
      \<and> files w' (path_join buildPath dst) = files w (path_join buildPath dst)"
    using artifacts_cases [OF assms(1)]
  proof (elim disjE conjE)
    assume s: "src = ''komorebi/target/x86_64-pc-windows-msvc/release/komorebi.exe''"
      and d: "dst = ''komorebi.exe''"
    from assms(2) have "files w (path_join (dirname e) ''komorebi/target/x86_64-pc-windows-msvc/release/komorebi.exe'') = None"
      unfolding s .
    then show ?thesis
      unfolding d by (rule missing_artifact_1)
  next
    assume s: "src = ''komorebi/target/x86_64-pc-windows-msvc/release/komorebic.exe''"
      and d: "dst = ''komorebic.exe''"
    from assms(2) have "files w (path_join (dirname e) ''komorebi/target/x86_64-pc-windows-msvc/release/komorebic.exe'') = None"
      unfolding s .
    then show ?thesis
      unfolding d by (rule missing_artifact_2)
  next
    assume s: "src = ''komorebi/komorebi.sample.ahk''"
      and d: "dst = ''komorebi.sample.ahk''"
    from assms(2) have "files w (path_join (dirname e) ''komorebi/komorebi.sample.ahk'') = None"
      unfolding s .
    then show ?thesis
      unfolding d by (rule missing_artifact_3)
  next
    assume s: "src = ''komorebi/komorebic.lib.ahk''"
      and d: "dst = ''komorebic.lib.ahk''"
    from assms(2) have "files w (path_join (dirname e) ''komorebi/komorebic.lib.ahk'') = None"
      unfolding s .
    then show ?thesis
      unfolding d by (rule missing_artifact_4)
  qed
  then show ?thesis
    by (simp add: effects_def split: prod.splits)
qed

theorem packageAfterCopy_missing_artifact_witness:
  "(''komorebi/komorebi.sample.ahk'', ''komorebi.sample.ahk'') \<in> set artifacts
   \<and> files (remove_file [''proj'', ''komorebi'', ''komorebi.sample.ahk''] fixture_world)
       (path_join (dirname fixture_env) ''komorebi/komorebi.sample.ahk'') = None
   \<and> outputs_to (path_join fixture_buildPath ''komorebi.sample.ahk'')
       (effects (packageAfterCopy fixture_env () fixture_buildPath ''30.0.0'' ''win32'' ''x64'')
          (remove_file [''proj'', ''komorebi'', ''komorebi.sample.ahk''] fixture_world)) = []
   \<and> files (snd (packageAfterCopy fixture_env () fixture_buildPath ''30.0.0'' ''win32'' ''x64''
                   (remove_file [''proj'', ''komorebi'', ''komorebi.sample.ahk''] fixture_world)))
       (path_join fixture_buildPath ''komorebi.sample.ahk'')
     = files (remove_file [''proj'', ''komorebi'', ''komorebi.sample.ahk''] fixture_world)
         (path_join fixture_buildPath ''komorebi.sample.ahk'')"
proof -
  have h1: "(''komorebi/komorebi.sample.ahk'', ''komorebi.sample.ahk'') \<in> set artifacts"
    by (simp add: artifacts_def)
  have h2: "files (remove_file [''proj'', ''komorebi'', ''komorebi.sample.ahk''] fixture_world)
      (path_join (dirname fixture_env) ''komorebi/komorebi.sample.ahk'') = None"
    by (simp add: fixture_paths remove_file_def)
  show ?thesis
    using h1 h2
      packageAfterCopy_missing_artifact
        [OF h1 h2, of "()" fixture_buildPath "''30.0.0''" "''win32''" "''x64''"]
    by blast
qed

section \<open>A missing license file\<close>

text \<open>
  Claim C10. The three license files are read before anything is written or copied: if
  one of them is absent, \<^verbatim>\<open>packageAfterCopy\<close> fails with the missing-file error of
  one of the three that is absent, the file system is as it was before the hook (the
  framework's license file unchanged, nothing copied into the staging directory), and
  the run has made no write and no copy.
\<close>

theorem packageAfterCopy_missing_license:
  assumes "files w (path_join (dirname e) ''LICENSE'') = None
         \<or> files w (path_join (dirname e) ''komorebi/LICENSE'') = None
         \<or> files w (path_join buildPath ''../../LICENSE'') = None"
  shows "(\<exists>p. fst (packageAfterCopy e fc buildPath ev pl ar w) = Inl (ENOENT p)
            \<and> files w p = None
            \<and> p \<in> {path_join (dirname e) ''LICENSE'', path_join (dirname e) ''komorebi/LICENSE'',
                    path_join buildPath ''../../LICENSE''})
       \<and> files (snd (packageAfterCopy e fc buildPath ev pl ar w)) = files w
       \<and> filter is_output (effects (packageAfterCopy e fc buildPath ev pl ar) w) = []"
proof -
  from assms have "case packageAfterCopy e fc buildPath ev pl ar w of (r, w') \<Rightarrow>
      (\<exists>p. r = Inl (ENOENT p) \<and> files w p = None
          \<and> p \<in> {path_join (dirname e) ''LICENSE'', path_join (dirname e) ''komorebi/LICENSE'',
                  path_join buildPath ''../../LICENSE''})
      \<and> files w' = files w
      \<and> filter is_output (drop (length (trace w)) (trace w')) = []"
  proof (elim disjE)
    assume "files w (path_join (dirname e) ''LICENSE'') = None"
    then show ?thesis
      by (simp add: packageAfterCopy_run split: option.split)
  next
    assume "files w (path_join (dirname e) ''komorebi/LICENSE'') = None"
    then show ?thesis
      by (simp add: packageAfterCopy_run split: option.split)
  next
    assume "files w (path_join buildPath ''../../LICENSE'') = None"
    then show ?thesis
      by (simp add: packageAfterCopy_run split: option.split)
  qed
  then show ?thesis
    by (simp add: effects_def split: prod.splits)
qed

theorem packageAfterCopy_missing_license_witness:
  "files (remove_file [''proj'', ''komorebi'', ''LICENSE''] fixture_world)
       (path_join (dirname fixture_env) ''komorebi/LICENSE'') = None
   \<and> files (snd (packageAfterCopy fixture_env () fixture_buildPath ''30.0.0'' ''win32'' ''x64''
                   (remove_file [''proj'', ''komorebi'', ''LICENSE''] fixture_world)))
     = files (remove_file [''proj'', ''komorebi'', ''LICENSE''] fixture_world)
   \<and> filter is_output
       (effects (packageAfterCopy fixture_env () fixture_buildPath ''30.0.0'' ''win32'' ''x64'')
          (remove_file [''proj'', ''komorebi'', ''LICENSE''] fixture_world)) = []"
proof -
  have h: "files (remove_file [''proj'', ''komorebi'', ''LICENSE''] fixture_world)
      (path_join (dirname fixture_env) ''komorebi/LICENSE'') = None"
    by (simp add: fixture_paths remove_file_def)
  then have "files (remove_file [''proj'', ''komorebi'', ''LICENSE''] fixture_world)
        (path_join (dirname fixture_env) ''LICENSE'') = None
      \<or> files (remove_file [''proj'', ''komorebi'', ''LICENSE''] fixture_world)
        (path_join (dirname fixture_env) ''komorebi/LICENSE'') = None
      \<or> files (remove_file [''proj'', ''komorebi'', ''LICENSE''] fixture_world)
        (path_join fixture_buildPath ''../../LICENSE'') = None"
    by blast
  from packageAfterCopy_missing_license
    [OF this, of "()" "''30.0.0''" "''win32''" "''x64''"] h
  show ?thesis
    by blast
qed

section \<open>The order of the effects of \<^verbatim>\<open>packageAfterCopy\<close>\<close>

lemma fixture_run_ok:
  "fst (packageAfterCopy fixture_env () fixture_buildPath ''30.0.0'' ''win32'' ''x64'' fixture_world)
     = Inr ()"
  by (simp add: packageAfterCopy_run path_join_def fixture_env_def fixture_buildPath_def
        fixture_world_def fixture_files_def)

text \<open>
  Claim C6. In every run of \<^verbatim>\<open>packageAfterCopy\<close> the effects come in one fixed order:
  the three license texts are read (the application's, the wrapped window manager's,
  the framework's), their concatenation with the separator is written over the
  framework's license file two levels above the staging directory, and then the four
  artifacts are copied into the staging directory, each under the file name of its
  source. A run that fails performs an initial part of this sequence; a run performs all
  of it exactly when the hook succeeds, and then each destination holds what its source
  held when the hook started.
\<close>

theorem packageAfterCopy_effect_order:
  "prefix (effects (packageAfterCopy e fc buildPath ev pl ar) w)
     (packageAfterCopy_plan e buildPath w)
   \<and> (fst (packageAfterCopy e fc buildPath ev pl ar w) = Inr ()
        \<longleftrightarrow> effects (packageAfterCopy e fc buildPath ev pl ar) w
            = packageAfterCopy_plan e buildPath w)
   \<and> (\<forall>(src, dst) \<in> set artifacts.
          last (path_join buildPath dst) = last (path_join (dirname e) src))
   \<and> (fst (packageAfterCopy e fc buildPath ev pl ar w) = Inr ()
        \<longrightarrow> (\<forall>(src, dst) \<in> set artifacts.
               files (snd (packageAfterCopy e fc buildPath ev pl ar w)) (path_join buildPath dst)
               = files w (path_join (dirname e) src)))"
proof -
  have "case packageAfterCopy e fc buildPath ev pl ar w of (r, w') \<Rightarrow>
      prefix (drop (length (trace w)) (trace w')) (packageAfterCopy_plan e buildPath w)
      \<and> (r = Inr ()
          \<longleftrightarrow> drop (length (trace w)) (trace w') = packageAfterCopy_plan e buildPath w)"
    by (simp add: packageAfterCopy_run packageAfterCopy_plan_def artifacts_def content_def
          distinct_paths_sym split: option.split)
  moreover have "case packageAfterCopy e fc buildPath ev pl ar w of (r, w') \<Rightarrow>
      r = Inr () \<longrightarrow>
      (\<forall>(src, dst) \<in> set artifacts.
          files w' (path_join buildPath dst) = files w (path_join (dirname e) src))"
    by (simp add: packageAfterCopy_run artifacts_def distinct_paths_sym split: option.split)
  moreover have "\<forall>(src, dst) \<in> set artifacts.
      last (path_join buildPath dst) = last (path_join (dirname e) src)"
    using file_names [THEN path_join_last, of buildPath]
      file_names [THEN path_join_last, of "dirname e"]
    by (simp add: artifacts_def)
  ultimately show ?thesis
    by (simp add: effects_def split: prod.splits)
qed

theorem packageAfterCopy_effect_order_witness:
  "(''komorebi/komorebic.lib.ahk'', ''komorebic.lib.ahk'') \<in> set artifacts
   \<and> last (path_join fixture_buildPath ''komorebic.lib.ahk'')
       = last (path_join (dirname fixture_env) ''komorebi/komorebic.lib.ahk'')
   \<and> fst (packageAfterCopy fixture_env () fixture_buildPath ''30.0.0'' ''win32'' ''x64''
            fixture_world) = Inr ()
   \<and> effects (packageAfterCopy fixture_env () fixture_buildPath ''30.0.0'' ''win32'' ''x64'')
       fixture_world
     = packageAfterCopy_plan fixture_env fixture_buildPath fixture_world
   \<and> files (snd (packageAfterCopy fixture_env () fixture_buildPath ''30.0.0'' ''win32'' ''x64''
                   fixture_world))
       (path_join fixture_buildPath ''komorebic.lib.ahk'')
     = files fixture_world (path_join (dirname fixture_env) ''komorebi/komorebic.lib.ahk'')"
proof -
  have h: "(''komorebi/komorebic.lib.ahk'', ''komorebic.lib.ahk'') \<in> set artifacts"
    by (simp add: artifacts_def)
  from packageAfterCopy_effect_order
    [of fixture_env "()" fixture_buildPath "''30.0.0''" "''win32''" "''x64''" fixture_world]
    h fixture_run_ok
  show ?thesis
    by blast
qed

section \<open>\<^verbatim>\<open>generateAssets\<close>\<close>

lemma generateAssets_begun:
  "case generateAssets ext e fc pl v w of (r, w') \<Rightarrow>
     Imported b \<in> set (drop (length (trace w)) (trace w')) \<longrightarrow>
     (\<exists>ts1 ts2.
        compileFromFile ext (path_join (cwd e) ''./komorebi/schema.json'') (files w) = Inr ts1
      \<and> compileFromFile ext (path_join (cwd e) ''./komorebi/schema.asc.json'') ((files w)(path_join (cwd e) ''./src/JsonSettings.interface.ts'' \<mapsto> ts1)) = Inr ts2
      \<and> drop (length (trace w)) (trace w')
          = [Compiled (path_join (cwd e) ''./komorebi/schema.json''), Wrote (path_join (cwd e) ''./src/JsonSettings.interface.ts'') ts1, Compiled (path_join (cwd e) ''./komorebi/schema.asc.json''), Wrote (path_join (cwd e) ''./src/YamlSettings.interface.ts'') ts2, Imported (path_join (dirname e) ''./scripts/build.mjs'')]
      \<and> r = fst (importBuild ext (path_join (dirname e) ''./scripts/build.mjs'') (with_generated e ts1 ts2 (files w)))
      \<and> files w' = snd (importBuild ext (path_join (dirname e) ''./scripts/build.mjs'') (with_generated e ts1 ts2 (files w))))"
  by (simp add: generateAssets_run with_generated_def split: sum.split prod.split)

lemma generateAssets_compiled:
  assumes "compileFromFile ext (path_join (cwd e) ''./komorebi/schema.json'') (files w) = Inr ts1"
    and "compileFromFile ext (path_join (cwd e) ''./komorebi/schema.asc.json'') ((files w)(path_join (cwd e) ''./src/JsonSettings.interface.ts'' \<mapsto> ts1)) = Inr ts2"
  shows "generateAssets ext e fc pl v w =
     (fst (importBuild ext (path_join (dirname e) ''./scripts/build.mjs'') (with_generated e ts1 ts2 (files w))),
      \<lparr> files = snd (importBuild ext (path_join (dirname e) ''./scripts/build.mjs'') (with_generated e ts1 ts2 (files w))),
        trace = trace w @ [Compiled (path_join (cwd e) ''./komorebi/schema.json''), Wrote (path_join (cwd e) ''./src/JsonSettings.interface.ts'') ts1, Compiled (path_join (cwd e) ''./komorebi/schema.asc.json''), Wrote (path_join (cwd e) ''./src/YamlSettings.interface.ts'') ts2,
                           Imported (path_join (dirname e) ''./scripts/build.mjs'')] \<rparr>)"
  using assms
  by (simp add: generateAssets_run with_generated_def split: prod.split)

lemma with_generated_lookup:
  "with_generated e ts1 ts2 fs (path_join (cwd e) ''./src/JsonSettings.interface.ts'') = Some ts1"
  "with_generated e ts1 ts2 fs (path_join (cwd e) ''./src/YamlSettings.interface.ts'') = Some ts2"
  by (simp_all add: with_generated_def distinct_paths_sym)

text \<open>
  Claim C5. In every run of \<^verbatim>\<open>generateAssets\<close> in which the build step
  \<^verbatim>\<open>import('./scripts/build.mjs')\<close> begins, both schema compilations have completed
  and both generated files have been written before it, in this order: the events of the
  run are compilation, write, compilation, write and only then the import, and the build
  script runs on the file system that holds both generated files.
\<close>

theorem generateAssets_build_last:
  assumes "Imported b \<in> set (effects (generateAssets ext e fc pl v) w)"
  shows "\<exists>ts1 ts2.
      compileFromFile ext (path_join (cwd e) ''./komorebi/schema.json'') (files w) = Inr ts1
    \<and> compileFromFile ext (path_join (cwd e) ''./komorebi/schema.asc.json'') ((files w)(path_join (cwd e) ''./src/JsonSettings.interface.ts'' \<mapsto> ts1)) = Inr ts2
    \<and> effects (generateAssets ext e fc pl v) w
        = [Compiled (path_join (cwd e) ''./komorebi/schema.json''), Wrote (path_join (cwd e) ''./src/JsonSettings.interface.ts'') ts1, Compiled (path_join (cwd e) ''./komorebi/schema.asc.json''), Wrote (path_join (cwd e) ''./src/YamlSettings.interface.ts'') ts2, Imported (path_join (dirname e) ''./scripts/build.mjs'')]
    \<and> fst (generateAssets ext e fc pl v w)
        = fst (importBuild ext (path_join (dirname e) ''./scripts/build.mjs'') (with_generated e ts1 ts2 (files w)))
    \<and> files (snd (generateAssets ext e fc pl v w))
        = snd (importBuild ext (path_join (dirname e) ''./scripts/build.mjs'') (with_generated e ts1 ts2 (files w)))
    \<and> with_generated e ts1 ts2 (files w) (path_join (cwd e) ''./src/JsonSettings.interface.ts'') = Some ts1
    \<and> with_generated e ts1 ts2 (files w) (path_join (cwd e) ''./src/YamlSettings.interface.ts'') = Some ts2"
  using assms
    generateAssets_begun [where ext = ext and e = e and fc = fc and pl = pl and v = v and w = w and b = b]
  by (simp add: effects_def with_generated_lookup split: prod.splits)

lemma fixture_compile:
  "compileFromFile fixture_externals (path_join (cwd fixture_env) ''./komorebi/schema.json'') (files fixture_world) = Inr ''export type T = {}''"
  "compileFromFile fixture_externals (path_join (cwd fixture_env) ''./komorebi/schema.asc.json'')
     ((files fixture_world)(path_join (cwd fixture_env) ''./src/JsonSettings.interface.ts'' \<mapsto> ''export type T = {}''))
   = Inr ''export type T = []''"
  by (simp_all add: fixture_externals_def stub_compile_def fixture_paths fixture_world_def
        fixture_files_def)

lemma fixture_generateAssets:
  "generateAssets fixture_externals fixture_env () ''win32'' ''x64'' fixture_world =
     (Inr (),
      \<lparr> files = with_generated fixture_env ''export type T = {}'' ''export type T = []''
                  (files fixture_world),
        trace = [Compiled (path_join (cwd fixture_env) ''./komorebi/schema.json''), Wrote (path_join (cwd fixture_env) ''./src/JsonSettings.interface.ts'') ''export type T = {}'',
                 Compiled (path_join (cwd fixture_env) ''./komorebi/schema.asc.json''), Wrote (path_join (cwd fixture_env) ''./src/YamlSettings.interface.ts'') ''export type T = []'',
                 Imported (path_join (dirname fixture_env) ''./scripts/build.mjs'')] \<rparr>)"
  using generateAssets_compiled [OF fixture_compile, of "()" "''win32''" "''x64''"]
  by (simp add: fixture_externals_def stub_build_def fixture_world_def)

theorem generateAssets_build_last_witness:
  "Imported (path_join (dirname fixture_env) ''./scripts/build.mjs'')
     \<in> set (effects (generateAssets fixture_externals fixture_env () ''win32'' ''x64'')
              fixture_world)
   \<and> (\<exists>ts1 ts2.
        effects (generateAssets fixture_externals fixture_env () ''win32'' ''x64'') fixture_world
        = [Compiled (path_join (cwd fixture_env) ''./komorebi/schema.json''), Wrote (path_join (cwd fixture_env) ''./src/JsonSettings.interface.ts'') ts1, Compiled (path_join (cwd fixture_env) ''./komorebi/schema.asc.json''), Wrote (path_join (cwd fixture_env) ''./src/YamlSettings.interface.ts'') ts2,
           Imported (path_join (dirname fixture_env) ''./scripts/build.mjs'')])"
proof -
  have h: "Imported (path_join (dirname fixture_env) ''./scripts/build.mjs'')
     \<in> set (effects (generateAssets fixture_externals fixture_env () ''win32'' ''x64'')
              fixture_world)"
    by (simp add: effects_def fixture_generateAssets) (simp add: fixture_world_def)
  from generateAssets_build_last [OF h] h show ?thesis
    by blast
qed

text \<open>
  Claim C8. When the schema compiler returns the texts \<open>ts1\<close> and \<open>ts2\<close> for the two
  schema files, \<^verbatim>\<open>generateAssets\<close> writes exactly these two texts, each to its
  destination file, and nothing else, and the build step starts on a file system in
  which the two destination files hold them: the files are non-empty, as the
  compiler's outputs are. Running the hook again, with the compiler returning the same
  two texts, performs the same two writes with the same contents.
\<close>

theorem generateAssets_compiler_output:
  assumes "compileFromFile ext (path_join (cwd e) ''./komorebi/schema.json'') (files w) = Inr ts1"
    and "compileFromFile ext (path_join (cwd e) ''./komorebi/schema.asc.json'') ((files w)(path_join (cwd e) ''./src/JsonSettings.interface.ts'' \<mapsto> ts1)) = Inr ts2"
    and "ts1 \<noteq> []"
    and "ts2 \<noteq> []"
  shows "filter is_output (effects (generateAssets ext e fc pl v) w)
        = [Wrote (path_join (cwd e) ''./src/JsonSettings.interface.ts'') ts1, Wrote (path_join (cwd e) ''./src/YamlSettings.interface.ts'') ts2]
    \<and> files (snd (generateAssets ext e fc pl v w))
        = snd (importBuild ext (path_join (dirname e) ''./scripts/build.mjs'') (with_generated e ts1 ts2 (files w)))
    \<and> with_generated e ts1 ts2 (files w) (path_join (cwd e) ''./src/JsonSettings.interface.ts'') = Some ts1
    \<and> with_generated e ts1 ts2 (files w) (path_join (cwd e) ''./src/YamlSettings.interface.ts'') = Some ts2
    \<and> with_generated e ts1 ts2 (files w) (path_join (cwd e) ''./src/JsonSettings.interface.ts'') \<noteq> Some []
    \<and> with_generated e ts1 ts2 (files w) (path_join (cwd e) ''./src/YamlSettings.interface.ts'') \<noteq> Some []
    \<and> (compileFromFile ext (path_join (cwd e) ''./komorebi/schema.json'') (files (snd (generateAssets ext e fc pl v w))) = Inr ts1
        \<and> compileFromFile ext (path_join (cwd e) ''./komorebi/schema.asc.json'')
            ((files (snd (generateAssets ext e fc pl v w)))(path_join (cwd e) ''./src/JsonSettings.interface.ts'' \<mapsto> ts1)) = Inr ts2
       \<longrightarrow> filter is_output
             (effects (generateAssets ext e fc pl v) (snd (generateAssets ext e fc pl v w)))
           = filter is_output (effects (generateAssets ext e fc pl v) w)
         \<and> with_generated e ts1 ts2 (files (snd (generateAssets ext e fc pl v w))) (path_join (cwd e) ''./src/JsonSettings.interface.ts'')
           = with_generated e ts1 ts2 (files w) (path_join (cwd e) ''./src/JsonSettings.interface.ts'')
         \<and> with_generated e ts1 ts2 (files (snd (generateAssets ext e fc pl v w))) (path_join (cwd e) ''./src/YamlSettings.interface.ts'')
           = with_generated e ts1 ts2 (files w) (path_join (cwd e) ''./src/YamlSettings.interface.ts'')
         \<and> files (snd (generateAssets ext e fc pl v (snd (generateAssets ext e fc pl v w))))
           = snd (importBuild ext (path_join (dirname e) ''./scripts/build.mjs'')
                   (with_generated e ts1 ts2 (files (snd (generateAssets ext e fc pl v w))))))"
proof -
  define w2 where "w2 = snd (generateAssets ext e fc pl v w)"
  have first: "filter is_output (effects (generateAssets ext e fc pl v) w)
        = [Wrote (path_join (cwd e) ''./src/JsonSettings.interface.ts'') ts1, Wrote (path_join (cwd e) ''./src/YamlSettings.interface.ts'') ts2]
      \<and> files (snd (generateAssets ext e fc pl v w))
        = snd (importBuild ext (path_join (dirname e) ''./scripts/build.mjs'') (with_generated e ts1 ts2 (files w)))"
    by (simp add: effects_def generateAssets_compiled [OF assms(1,2)])
  have again: "filter is_output (effects (generateAssets ext e fc pl v) w2)
        = [Wrote (path_join (cwd e) ''./src/JsonSettings.interface.ts'') ts1, Wrote (path_join (cwd e) ''./src/YamlSettings.interface.ts'') ts2]
      \<and> files (snd (generateAssets ext e fc pl v w2))
        = snd (importBuild ext (path_join (dirname e) ''./scripts/build.mjs'') (with_generated e ts1 ts2 (files w2)))"
    if "compileFromFile ext (path_join (cwd e) ''./komorebi/schema.json'') (files w2) = Inr ts1"
      and "compileFromFile ext (path_join (cwd e) ''./komorebi/schema.asc.json'') ((files w2)(path_join (cwd e) ''./src/JsonSettings.interface.ts'' \<mapsto> ts1)) = Inr ts2"
    by (simp add: effects_def generateAssets_compiled [OF that])
  from first again assms(3,4) show ?thesis
    unfolding w2_def by (simp add: with_generated_lookup)
qed

theorem generateAssets_compiler_output_witness:
  "compileFromFile fixture_externals (path_join (cwd fixture_env) ''./komorebi/schema.json'') (files fixture_world) = Inr ''export type T = {}''
   \<and> compileFromFile fixture_externals (path_join (cwd fixture_env) ''./komorebi/schema.asc.json'')
       ((files fixture_world)(path_join (cwd fixture_env) ''./src/JsonSettings.interface.ts'' \<mapsto> ''export type T = {}''))
     = Inr ''export type T = []''
   \<and> ''export type T = {}'' \<noteq> []
   \<and> ''export type T = []'' \<noteq> []
   \<and> compileFromFile fixture_externals (path_join (cwd fixture_env) ''./komorebi/schema.json'')
       (files (snd (generateAssets fixture_externals fixture_env () ''win32'' ''x64''
                      fixture_world)))
     = Inr ''export type T = {}''
   \<and> compileFromFile fixture_externals (path_join (cwd fixture_env) ''./komorebi/schema.asc.json'')
       ((files (snd (generateAssets fixture_externals fixture_env () ''win32'' ''x64''
                       fixture_world)))(path_join (cwd fixture_env) ''./src/JsonSettings.interface.ts'' \<mapsto> ''export type T = {}''))
     = Inr ''export type T = []''
   \<and> filter is_output
       (effects (generateAssets fixture_externals fixture_env () ''win32'' ''x64'') fixture_world)
     = [Wrote (path_join (cwd fixture_env) ''./src/JsonSettings.interface.ts'') ''export type T = {}'', Wrote (path_join (cwd fixture_env) ''./src/YamlSettings.interface.ts'') ''export type T = []'']
   \<and> filter is_output
       (effects (generateAssets fixture_externals fixture_env () ''win32'' ''x64'')
          (snd (generateAssets fixture_externals fixture_env () ''win32'' ''x64'' fixture_world)))
     = filter is_output
         (effects (generateAssets fixture_externals fixture_env () ''win32'' ''x64'')
            fixture_world)"
proof -
  have n1: "''export type T = {}'' \<noteq> []" and n2: "''export type T = []'' \<noteq> []"
    by simp_all
  have r1: "compileFromFile fixture_externals (path_join (cwd fixture_env) ''./komorebi/schema.json'')
       (files (snd (generateAssets fixture_externals fixture_env () ''win32'' ''x64''
                      fixture_world)))
     = Inr ''export type T = {}''"
    unfolding fixture_generateAssets
    by (simp add: with_generated_def fixture_externals_def stub_compile_def fixture_paths
          fixture_world_def fixture_files_def)
  have r2: "compileFromFile fixture_externals (path_join (cwd fixture_env) ''./komorebi/schema.asc.json'')
       ((files (snd (generateAssets fixture_externals fixture_env () ''win32'' ''x64''
                       fixture_world)))(path_join (cwd fixture_env) ''./src/JsonSettings.interface.ts'' \<mapsto> ''export type T = {}''))
     = Inr ''export type T = []''"
    unfolding fixture_generateAssets
    by (simp add: with_generated_def fixture_externals_def stub_compile_def fixture_paths
          fixture_world_def fixture_files_def)
  from generateAssets_compiler_output
    [OF fixture_compile n1 n2, of "()" "''win32''" "''x64''"]
    fixture_compile n1 n2 r1 r2
  show ?thesis
    by blast
qed

section \<open>\<^verbatim>\<open>prePackage\<close>\<close>

text \<open>
  Claim C7. \<^verbatim>\<open>prePackage\<close> invokes the script \<^verbatim>\<open>prePackage.ps1\<close> once, with the
  argument string \<^verbatim>\<open>-Folder\<close> followed by the path of the output folder
  \<^verbatim>\<open>out/Komorebi UI-win32-x64\<close> below the working directory, as \<^verbatim>\<open>path.join\<close> gives
  it. The outcome of the hook is the outcome of the invocation: if the script fails,
  the hook fails with the same error.
\<close>

theorem prePackage_invokes_script:
  "effects (prePackage ext e fc pl v) w = [Invoked ''prePackage.ps1'' (''-Folder '' @ path_text e (path_join (cwd e) ''out/Komorebi UI-win32-x64''))]
   \<and> fst (prePackage ext e fc pl v w) = fst (runPwshScript ext ''prePackage.ps1'' (''-Folder '' @ path_text e (path_join (cwd e) ''out/Komorebi UI-win32-x64'')) (files w))
   \<and> (\<forall>err. fst (runPwshScript ext ''prePackage.ps1'' (''-Folder '' @ path_text e (path_join (cwd e) ''out/Komorebi UI-win32-x64'')) (files w)) = Inl err
          \<longrightarrow> fst (prePackage ext e fc pl v w) = Inl err)"
  by (simp add: prePackage_def await_runPwshScript_def log_event_def effects_def
        split: prod.splits)

theorem prePackage_invokes_script_witness:
  "fst (runPwshScript failing_externals ''prePackage.ps1''
          (''-Folder '' @ path_text fixture_env
             (path_join (cwd fixture_env) ''out/Komorebi UI-win32-x64''))
          (files fixture_world))
     = Inl (Failed ''exit code 1'')
   \<and> fst (prePackage failing_externals fixture_env () ''win32'' ''x64'' fixture_world)
     = Inl (Failed ''exit code 1'')"
proof -
  have h: "fst (runPwshScript failing_externals ''prePackage.ps1''
          (''-Folder '' @ path_text fixture_env
             (path_join (cwd fixture_env) ''out/Komorebi UI-win32-x64''))
          (files fixture_world))
     = Inl (Failed ''exit code 1'')"
    by (simp add: failing_externals_def failing_script_def)
  from prePackage_invokes_script
    [of failing_externals fixture_env "()" "''win32''" "''x64''" fixture_world] h
  show ?thesis
    by blast
qed

text \<open>
  Claim C3, as the code has it. The claim that \<^verbatim>\<open>prePackage\<close> does nothing on a
  platform other than Windows fails: on \<^verbatim>\<open>linux\<close> the hook invokes the script all
  the same.
\<close>

theorem prePackage_other_platform_counterexample:
  "effects (prePackage fixture_externals fixture_env () ''linux'' ''x64'') fixture_world
     = [Invoked ''prePackage.ps1'' ''-Folder /proj/out/Komorebi UI-win32-x64'']"
  by (simp add: prePackage_def await_runPwshScript_def log_event_def effects_def
        fixture_externals_def stub_script_def fixture_paths fixture_path_text fixture_world_def
        split: prod.splits)

text \<open>
  Claim C3, amended. \<^verbatim>\<open>prePackage\<close> does not look at the platform it is given (nor
  at its other arguments): on every platform, Windows or not, it invokes the script
  \<^verbatim>\<open>prePackage.ps1\<close> once with the same argument string and has the same outcome. It
  changes no file itself: the file system after the hook is the one the script leaves.
\<close>

theorem prePackage_ignores_platform:
  "prePackage ext e fc platform v w = prePackage ext e fc' platform' v' w
   \<and> effects (prePackage ext e fc platform v) w = [Invoked ''prePackage.ps1'' (''-Folder '' @ path_text e (path_join (cwd e) ''out/Komorebi UI-win32-x64''))]
   \<and> files (snd (prePackage ext e fc platform v w))
       = snd (runPwshScript ext ''prePackage.ps1'' (''-Folder '' @ path_text e (path_join (cwd e) ''out/Komorebi UI-win32-x64'')) (files w))"
  by (simp add: prePackage_def await_runPwshScript_def log_event_def effects_def
        split: prod.splits)

theorem prePackage_ignores_platform_witness:
  "prePackage fixture_externals fixture_env () ''linux'' ''x64'' fixture_world
     = prePackage fixture_externals fixture_env () ''win32'' ''x64'' fixture_world
   \<and> effects (prePackage fixture_externals fixture_env () ''linux'' ''x64'') fixture_world
     = [Invoked ''prePackage.ps1''
          (''-Folder '' @ path_text fixture_env
             (path_join (cwd fixture_env) ''out/Komorebi UI-win32-x64''))]"
  using prePackage_ignores_platform
    [where ext = fixture_externals and e = fixture_env and fc = "()" and fc' = "()"
       and platform = "''linux''" and platform' = "''win32''" and v = "''x64''"
       and v' = "''x64''" and w = fixture_world]
  by blast

section \<open>The publisher configuration\<close>

lemma starts_with_prefix: "starts_with s p \<longleftrightarrow> prefix p s"
  by (induction s p rule: starts_with.induct) auto

lemma includes_str_sublist: "includes_str s p \<longleftrightarrow> sublist p s"
  by (induction s) (auto simp: starts_with_prefix sublist_Cons_right)

text \<open>
  Claim C2. The prerelease flag of the publisher configuration is true exactly when
  the version string of \<^verbatim>\<open>package.json\<close> contains \<^verbatim>\<open>beta\<close> as a substring: it is
  true for \<^verbatim>\<open>1.2.0-beta.1\<close> and for \<^verbatim>\<open>1.2.0-betax\<close>, and false for \<^verbatim>\<open>1.2.0\<close>.
\<close>

theorem prerelease_iff_beta:
  "(prerelease (publisher (config e)) \<longleftrightarrow> (\<exists>pre suf. version e = pre @ ''beta'' @ suf))
   \<and> prerelease (publisher (config (e\<lparr>version := ''1.2.0-beta.1''\<rparr>)))
   \<and> prerelease (publisher (config (e\<lparr>version := ''1.2.0-betax''\<rparr>)))
   \<and> \<not> prerelease (publisher (config (e\<lparr>version := ''1.2.0''\<rparr>)))"
proof -
  have "prerelease (publisher (config e)) \<longleftrightarrow> (\<exists>pre suf. version e = pre @ ''beta'' @ suf)"
    by (simp add: config_def includes_str_sublist sublist_def)
  then show ?thesis
    by (simp add: config_def)
qed

theorem prerelease_iff_beta_witness:
  "version fixture_env = ''2.0.0-'' @ ''beta'' @ []
   \<and> prerelease (publisher (config fixture_env))"
proof -
  have h: "version fixture_env = ''2.0.0-'' @ ''beta'' @ []"
    by (simp add: fixture_env_def)
  then have "\<exists>pre suf. version fixture_env = pre @ ''beta'' @ suf"
    by blast
  with prerelease_iff_beta [of fixture_env] h show ?thesis
    by blast
qed

text \<open>
  Claim C9. The value of \<^verbatim>\<open>GITHUB_TOKEN\<close> has no influence on the hooks: two runs
  that differ only in it have the same outcome, leave the same file system and perform
  the same reads, writes, copies and external invocations, with the same arguments.
  The token reaches the configuration in the \<^verbatim>\<open>authToken\<close> field of the publisher
  and nowhere else.
\<close>

theorem GITHUB_TOKEN_only_in_authToken:
  "generateAssets ext (e\<lparr>GITHUB_TOKEN := t\<rparr>) fc pl v w = generateAssets ext e fc pl v w
   \<and> prePackage ext (e\<lparr>GITHUB_TOKEN := t\<rparr>) fc pl v w = prePackage ext e fc pl v w
   \<and> packageAfterCopy (e\<lparr>GITHUB_TOKEN := t\<rparr>) fc buildPath ev pl ar w
       = packageAfterCopy e fc buildPath ev pl ar w
   \<and> authToken (publisher (config (e\<lparr>GITHUB_TOKEN := t\<rparr>))) = t
   \<and> config (e\<lparr>GITHUB_TOKEN := t\<rparr>)
       = (config e)\<lparr>publisher := (publisher (config e))\<lparr>authToken := t\<rparr>\<rparr>"
  by (simp add: generateAssets_def prePackage_def packageAfterCopy_def config_def)

theorem GITHUB_TOKEN_only_in_authToken_witness:
  "packageAfterCopy (fixture_env\<lparr>GITHUB_TOKEN := None\<rparr>) () fixture_buildPath
       ''30.0.0'' ''win32'' ''x64'' fixture_world
     = packageAfterCopy fixture_env () fixture_buildPath ''30.0.0'' ''win32'' ''x64'' fixture_world
   \<and> generateAssets fixture_externals (fixture_env\<lparr>GITHUB_TOKEN := None\<rparr>) ()
       ''win32'' ''x64'' fixture_world
     = generateAssets fixture_externals fixture_env () ''win32'' ''x64'' fixture_world
   \<and> prePackage fixture_externals (fixture_env\<lparr>GITHUB_TOKEN := None\<rparr>) ()
       ''win32'' ''x64'' fixture_world
     = prePackage fixture_externals fixture_env () ''win32'' ''x64'' fixture_world
   \<and> authToken (publisher (config (fixture_env\<lparr>GITHUB_TOKEN := None\<rparr>))) = None"
  using GITHUB_TOKEN_only_in_authToken
    [where ext = fixture_externals and e = fixture_env and t = None and fc = "()"
       and pl = "''win32''" and v = "''x64''" and w = fixture_world
       and buildPath = fixture_buildPath and ev = "''30.0.0''" and ar = "''x64''"]
  by blast

end
